theory Spec2Isabelle
  imports Complex_Main
begin

section \<open>Numbers, errors and price rows\<close>

text \<open>
  Python floats are idealised as reals; the one non-number the code tests for, NaN, is
  kept apart as \<open>None\<close>. A comparison with NaN is false and arithmetic on NaN is NaN.
  Dates are only stored, never inspected, so they are natural numbers here.
\<close>

type_synonym fl = "real option"

type_synonym date = nat

datatype error = KeyError string | ZeroDivisionError

definition isnan :: "fl \<Rightarrow> bool" where
  "isnan x = (x = None)"

definition fl_less :: "fl \<Rightarrow> fl \<Rightarrow> bool" where
  "fl_less a b = (case a of None \<Rightarrow> False
                  | Some x \<Rightarrow> (case b of None \<Rightarrow> False | Some y \<Rightarrow> x < y))"

definition fl_scale :: "fl \<Rightarrow> real \<Rightarrow> fl" where
  "fl_scale a r = (case a of None \<Rightarrow> None | Some x \<Rightarrow> Some (x * r))"

definition fl_neg :: "fl \<Rightarrow> fl" where
  "fl_neg a = (case a of None \<Rightarrow> None | Some x \<Rightarrow> Some (- x))"

text \<open>
  One row of the price table (a pandas Series): a dictionary from column name to price.
  Looking up a column that is not there raises KeyError.
\<close>

type_synonym row = "string \<Rightarrow> fl option"

definition row_get :: "row \<Rightarrow> string \<Rightarrow> error + fl" where
  "row_get r k = (case r k of None \<Rightarrow> Inl (KeyError k) | Some v \<Rightarrow> Inr v)"


section \<open>tracker.py: class Tracker\<close>

text \<open>The field \<open>self.n\<close> is called \<open>win_n\<close>.\<close>

record tracker =
  prev_date :: "date option"
  prev_price :: fl
  day_return :: fl
  win_n :: int
  price_window :: "fl list"
  moving_average :: fl
  std :: fl

definition Tracker_init :: "int \<Rightarrow> tracker" where
  "Tracker_init k =
     \<lparr>prev_date = None, prev_price = Some 0, day_return = Some 0, win_n = k,
      price_window = [], moving_average = Some 0, std = Some 0\<rparr>"

text \<open>
  Lines 49-57: NaN statistics when a NaN is in the window, else the mean and the mean of
  the squared errors. On an empty window \<open>sum([]) / len([])\<close> divides by zero.
\<close>

definition window_stats :: "fl list \<Rightarrow> error + (fl \<times> fl)" where
  "window_stats w =
     (if list_ex isnan w then Inr (None, None)
      else if w = [] then Inl ZeroDivisionError
      else (let vs = map the w;
                m = sum_list vs / real (length vs);
                avg_err_sq = map (\<lambda>v. (v - m) ^ 2) vs
            in Inr (Some m, Some (sum_list avg_err_sq / real (length vs)))))"

text \<open>Line 59.\<close>

definition tracker_day_return :: "fl \<Rightarrow> fl \<Rightarrow> fl" where
  "tracker_day_return prev price =
     (if prev = Some 0 then Some 0
      else (case price of None \<Rightarrow> None
            | Some p \<Rightarrow> (case prev of None \<Rightarrow> None | Some q \<Rightarrow> Some (p / q - 1))))"

text \<open>
  \<open>Tracker.__call__\<close>: \<open>append\<close> puts the price at the end of the list and
  \<open>pop()\<close>, without an index, removes the last element of the list.
\<close>

definition Tracker_call :: "tracker \<Rightarrow> date \<Rightarrow> fl \<Rightarrow> error + tracker" where
  "Tracker_call t d price =
     (let w1 = price_window t @ [price] in
      if int (length w1) > win_n t then
        (let w2 = butlast w1 in
         case window_stats w2 of
           Inl e \<Rightarrow> Inl e
         | Inr ms \<Rightarrow>
             Inr (t\<lparr>price_window := w2, moving_average := fst ms, std := snd ms,
                    day_return := tracker_day_return (prev_price t) price,
                    prev_price := price, prev_date := Some d\<rparr>))
      else Inr (t\<lparr>price_window := w1\<rparr>))"

text \<open>Feeding a list of prices to a tracker, one call each, stopping at the first error.\<close>

fun Tracker_feed :: "tracker \<Rightarrow> (date \<times> fl) list \<Rightarrow> error + tracker" where
  "Tracker_feed t [] = Inr t"
| "Tracker_feed t (x # xs) =
     (case Tracker_call t (fst x) (snd x) of
        Inl e \<Rightarrow> Inl e
      | Inr t' \<Rightarrow> Tracker_feed t' xs)"


section \<open>signal.py: class StdDevPairSignal\<close>

record signal =
  asset_a :: string
  asset_b :: string
  tracker :: tracker
  std_rise :: real
  std_drop :: real
  n_days :: int

definition StdDevPairSignal_init ::
  "string \<Rightarrow> string \<Rightarrow> int \<Rightarrow> real \<Rightarrow> real \<Rightarrow> signal" where
  "StdDevPairSignal_init a b k rise fall =
     \<lparr>asset_a = a, asset_b = b, tracker = Tracker_init k,
      std_rise = rise, std_drop = fall, n_days = k\<rparr>"

text \<open>Lines 100-103: the rise test first, the drop test second, overwriting.\<close>

definition decide_signal :: "signal \<Rightarrow> tracker \<Rightarrow> real" where
  "decide_signal sg t =
     (let s1 = (if fl_less (fl_scale (std t) (std_rise sg)) (day_return t) then 1 else 0)
      in if fl_less (day_return t) (fl_scale (fl_neg (std t)) (std_drop sg)) then - 1 else s1)"

text \<open>
  \<open>StdDevPairSignal.__call__\<close>. The \<open>or\<close> of line 96 evaluates its operands left to
  right and stops at the first true one, so the column of asset A is only read when the
  price of asset B is a number.
\<close>

definition StdDevPairSignal_call ::
  "signal \<Rightarrow> date \<Rightarrow> row \<Rightarrow> error + (signal \<times> string \<times> real)" where
  "StdDevPairSignal_call sg d r =
     (case row_get r (asset_b sg) of
        Inl e \<Rightarrow> Inl e
      | Inr current_price \<Rightarrow>
          if isnan current_price then Inr (sg, asset_a sg, 0)
          else (case row_get r (asset_a sg) of
                  Inl e \<Rightarrow> Inl e
                | Inr pa \<Rightarrow>
                    if isnan pa \<or> isnan (std (tracker sg)) then Inr (sg, asset_a sg, 0)
                    else (case Tracker_call (tracker sg) d current_price of
                            Inl e \<Rightarrow> Inl e
                          | Inr t' \<Rightarrow>
                              Inr (sg\<lparr>tracker := t'\<rparr>, asset_a sg, decide_signal sg t'))))"


section \<open>strategy.py: class FuturesStdPairStrategy\<close>

text \<open>
  The keyword bag. The five parameters that \<open>StdDevPairSignal.__init__\<close> requires are
  always present; the three read with \<open>kwargs.get\<close> are optional.
\<close>

record kwargs =
  kw_asset_a :: string
  kw_asset_b :: string
  kw_n_days :: int
  kw_std_rise :: real
  kw_std_drop :: real
  kw_long_size :: "real option"
  kw_short_size :: "real option"
  kw_C :: "real option"

definition kw_get :: "real option \<Rightarrow> real \<Rightarrow> real" where
  "kw_get v dflt = (case v of None \<Rightarrow> dflt | Some x \<Rightarrow> x)"

record strategy =
  stdsignal :: signal
  buy_size :: real
  short_size :: real

definition FuturesStdPairStrategy_init :: "kwargs \<Rightarrow> strategy" where
  "FuturesStdPairStrategy_init kw =
     \<lparr>stdsignal = StdDevPairSignal_init (kw_asset_a kw) (kw_asset_b kw) (kw_n_days kw)
                    (kw_std_rise kw) (kw_std_drop kw),
      buy_size = kw_get (kw_long_size kw) 10,
      short_size = kw_get (kw_short_size kw) 10\<rparr>"

text \<open>What a strategy returns as its order: a signed size or the string \<open>'close'\<close>.\<close>

datatype trade = Close | Size real

definition FuturesStdPairStrategy_call ::
  "strategy \<Rightarrow> date \<Rightarrow> row \<Rightarrow> error + (strategy \<times> string \<times> trade)" where
  "FuturesStdPairStrategy_call st d r =
     (case StdDevPairSignal_call (stdsignal st) d r of
        Inl e \<Rightarrow> Inl e
      | Inr res \<Rightarrow>
          (let st' = st\<lparr>stdsignal := fst res\<rparr>;
               asset = fst (snd res);
               std_signal = snd (snd res)
           in if std_signal = 1 then Inr (st', asset, Size (buy_size st * std_signal))
              else if std_signal = - 1 then Inr (st', asset, Size (short_size st * std_signal))
              else Inr (st', asset, Close)))"


section \<open>backtest.py: class Backtest\<close>

text \<open>
  The numbers of the ledger start as Python numbers (the caller's \<open>cash\<close>, the cost
  \<open>C\<close>, the literal \<open>0\<close>) and become \<open>numpy.float64\<close> once numpy arithmetic
  touches them, because the prices of a row are \<open>numpy.float64\<close>. This shows in line 89
  only: a quotient of Python numbers with divisor zero raises ZeroDivisionError, while a
  quotient with a \<open>numpy.float64\<close> operand warns and evaluates to \<open>inf\<close>,
  \<open>-inf\<close> or \<open>nan\<close>. The field \<open>numpy_valued\<close> says that \<open>cash\<close> or
  \<open>position_value\<close> holds a \<open>numpy.float64\<close>; then so does every later
  \<open>total_value\<close>. The other fields are the attributes of the engine;
  \<open>self.prev_price\<close> is called \<open>last_price\<close>.
\<close>

datatype npfloat = Finite real | PosInf | NegInf | NotANumber

definition np_divide :: "real \<Rightarrow> real \<Rightarrow> npfloat" where
  "np_divide x y =
     (if y \<noteq> 0 then Finite (x / y)
      else if 0 < x then PosInf else if x < 0 then NegInf else NotANumber)"

record backtest =
  t_cost :: real
  initial_value :: real
  cash :: real
  position_value :: real
  position_size :: real
  last_price :: fl
  max_value :: real
  pnl :: "real list"
  drawdown :: "npfloat list"
  numpy_valued :: bool

definition ledger_init :: "real \<Rightarrow> kwargs \<Rightarrow> backtest" where
  "ledger_init c kw =
     \<lparr>t_cost = kw_get (kw_C kw) (1 / 10), initial_value = c, cash = c,
      position_value = 0, position_size = 0, last_price = None,
      max_value = c, pnl = [], drawdown = [], numpy_valued = False\<rparr>"

text \<open>Lines 62-65, for a price that is a number.\<close>

definition engine_day_return :: "fl \<Rightarrow> real \<Rightarrow> real" where
  "engine_day_return prev price =
     (case prev of None \<Rightarrow> 0 | Some q \<Rightarrow> if q = 0 then 0 else price / q - 1)"

text \<open>
  The day return is the Python integer \<open>0\<close> of line 63 unless line 65 computes it
  from the two prices.
\<close>

definition day_return_is_numpy :: "fl \<Rightarrow> bool" where
  "day_return_is_numpy prev = (case prev of None \<Rightarrow> False | Some q \<Rightarrow> q \<noteq> 0)"

text \<open>Lines 67-69.\<close>

definition mark_to_market :: "backtest \<Rightarrow> real \<Rightarrow> backtest" where
  "mark_to_market b price =
     (let dr = engine_day_return (last_price b) price
      in b\<lparr>last_price := Some price,
            position_value := position_value b + position_value b * dr * position_size b,
            numpy_valued := numpy_valued b \<or> day_return_is_numpy (last_price b)\<rparr>)"

text \<open>Lines 72-79. An executed order multiplies by the price, a \<open>numpy.float64\<close>.\<close>

definition apply_order :: "backtest \<Rightarrow> real \<Rightarrow> trade \<Rightarrow> backtest" where
  "apply_order b price trade_size =
     (case trade_size of
        Close \<Rightarrow> b\<lparr>cash := cash b + (position_value b - t_cost b), position_value := 0\<rparr>
      | Size s \<Rightarrow>
          if cash b \<ge> \<bar>s\<bar> * price + t_cost b
          then b\<lparr>cash := cash b - (\<bar>s\<bar> * price - t_cost b),
                 position_size := position_size b + s,
                 position_value := position_value b + s * price,
                 numpy_valued := True\<rparr>
          else b)"

text \<open>
  Lines 82-90. When \<open>max_value\<close> is zero, line 89 raises ZeroDivisionError on Python
  numbers and appends \<open>inf\<close>, \<open>-inf\<close> or \<open>nan\<close> on numpy values.
\<close>

definition record_day :: "backtest \<Rightarrow> error + backtest" where
  "record_day b =
     (let total_value = position_value b + cash b;
          profit = total_value - initial_value b;
          mv = max (max_value b) profit
      in if mv = 0 \<and> \<not> numpy_valued b then Inl ZeroDivisionError
         else Inr (b\<lparr>pnl := pnl b @ [total_value], max_value := mv,
                     drawdown := drawdown b @ [np_divide (mv - total_value) mv]\<rparr>))"

text \<open>Lines 60-94: the body of the loop once the strategy has answered.\<close>

definition settle :: "backtest \<Rightarrow> fl \<Rightarrow> trade \<Rightarrow> error + backtest" where
  "settle b price trade_size =
     (case price of
        None \<Rightarrow> Inr (b\<lparr>pnl := pnl b @ [position_value b + cash b],
                        drawdown := drawdown b @ [Finite 0]\<rparr>)
      | Some p \<Rightarrow> record_day (apply_order (mark_to_market b p) p trade_size))"

text \<open>Lines 57-94: one iteration of the loop.\<close>

definition day ::
  "backtest \<Rightarrow> strategy \<Rightarrow> date \<Rightarrow> row \<Rightarrow> error + (backtest \<times> strategy)" where
  "day b st d r =
     (case FuturesStdPairStrategy_call st d r of
        Inl e \<Rightarrow> Inl e
      | Inr res \<Rightarrow>
          (case row_get r (fst (snd res)) of
             Inl e \<Rightarrow> Inl e
           | Inr price \<Rightarrow>
               (case settle b price (snd (snd res)) of
                  Inl e \<Rightarrow> Inl e
                | Inr b' \<Rightarrow> Inr (b', fst res))))"

fun run ::
  "backtest \<Rightarrow> strategy \<Rightarrow> (date \<times> row) list \<Rightarrow> error + (backtest \<times> strategy)" where
  "run b st [] = Inr (b, st)"
| "run b st (x # xs) =
     (case day b st (fst x) (snd x) of
        Inl e \<Rightarrow> Inl e
      | Inr bs \<Rightarrow> run (fst bs) (snd bs) xs)"

text \<open>
  Lines 36-42. \<open>str.lower\<close> on the ASCII letters; the strategy argument is either an
  instance of \<open>Strategy\<close> or a name.
\<close>

definition lower_char :: "char \<Rightarrow> char" where
  "lower_char c =
     (let k = (of_char c :: nat) in if 65 \<le> k \<and> k \<le> 90 then char_of (k + 32) else c)"

definition lower :: "string \<Rightarrow> string" where
  "lower s = map lower_char s"

datatype strategy_arg = Instance strategy | Name string

definition select_strategy :: "strategy_arg \<Rightarrow> kwargs \<Rightarrow> error + strategy" where
  "select_strategy sa kw =
     (case sa of
        Instance st \<Rightarrow> Inr st
      | Name s \<Rightarrow>
          if lower s = ''future_pairs_strategy'' \<or> lower s = ''futurepairsstrategy''
          then Inr (FuturesStdPairStrategy_init kw)
          else Inl (KeyError (''Strategy '' @ [CHR 0x22] @ s @ [CHR 0x22] @ '' not recognized!'')))"

text \<open>\<open>Backtest.__init__\<close> up to line 95.\<close>

definition Backtest_init ::
  "(date \<times> row) list \<Rightarrow> strategy_arg \<Rightarrow> real \<Rightarrow> kwargs \<Rightarrow> error + (backtest \<times> strategy)" where
  "Backtest_init dataset sa c kw =
     (case select_strategy sa kw of
        Inl e \<Rightarrow> Inl e
      | Inr st \<Rightarrow> run (ledger_init c kw) st dataset)"


section \<open>Driving the signal and the strategy over a table\<close>

text \<open>
  The engine's loop calls the strategy once per row. These two functions do the same
  without the ledger and collect what was answered each day.
\<close>

fun signal_run :: "signal \<Rightarrow> (date \<times> row) list \<Rightarrow> error + (signal \<times> real list)" where
  "signal_run sg [] = Inr (sg, [])"
| "signal_run sg (x # xs) =
     (case StdDevPairSignal_call sg (fst x) (snd x) of
        Inl e \<Rightarrow> Inl e
      | Inr res \<Rightarrow>
          (case signal_run (fst res) xs of
             Inl e \<Rightarrow> Inl e
           | Inr rest \<Rightarrow> Inr (fst rest, snd (snd res) # snd rest)))"

fun strategy_run :: "strategy \<Rightarrow> (date \<times> row) list \<Rightarrow> error + (strategy \<times> trade list)" where
  "strategy_run st [] = Inr (st, [])"
| "strategy_run st (x # xs) =
     (case FuturesStdPairStrategy_call st (fst x) (snd x) of
        Inl e \<Rightarrow> Inl e
      | Inr res \<Rightarrow>
          (case strategy_run (fst res) xs of
             Inl e \<Rightarrow> Inl e
           | Inr rest \<Rightarrow> Inr (fst rest, snd (snd res) # snd rest)))"


section \<open>Predicates used in the statements\<close>

text \<open>Every row of the table has the two columns the signal reads.\<close>

definition has_columns :: "signal \<Rightarrow> (date \<times> row) list \<Rightarrow> bool" where
  "has_columns sg ds =
     list_all (\<lambda>x. snd x (asset_a sg) \<noteq> None \<and> snd x (asset_b sg) \<noteq> None) ds"

text \<open>The number of rows in which the price in column \<open>a\<close> is a number.\<close>

definition is_present :: "string \<Rightarrow> date \<times> row \<Rightarrow> bool" where
  "is_present a x = (case snd x a of None \<Rightarrow> False | Some v \<Rightarrow> \<not> isnan v)"

definition present_days :: "string \<Rightarrow> (date \<times> row) list \<Rightarrow> nat" where
  "present_days a ds = length (filter (is_present a) ds)"

text \<open>
  A tracker that has computed nothing yet and whose window can take \<open>k\<close> more prices
  before the test of line 46 succeeds.
\<close>

definition unfilled :: "tracker \<Rightarrow> nat \<Rightarrow> bool" where
  "unfilled t k =
     (int (length (price_window t)) + int k \<le> win_n t \<and>
      moving_average t = Some 0 \<and> std t = Some 0 \<and> day_return t = Some 0)"


section \<open>Concrete inputs\<close>

definition example_ledger :: backtest where
  "example_ledger =
     \<lparr>t_cost = 1 / 10, initial_value = 1000, cash = 900, position_value = 100,
      position_size = 10, last_price = Some 10, max_value = 1000, pnl = [], drawdown = [],
      numpy_valued = True\<rparr>"

definition flat_ledger :: backtest where
  "flat_ledger = example_ledger\<lparr>cash := 1000, position_value := 0, position_size := 0\<rparr>"

definition example_row :: "real \<Rightarrow> real \<Rightarrow> row" where
  "example_row a b =
     (\<lambda>k. if k = ''A Price'' then Some (Some a)
          else if k = ''B Price'' then Some (Some b) else None)"

definition example_kwargs :: kwargs where
  "example_kwargs =
     \<lparr>kw_asset_a = ''A Price'', kw_asset_b = ''B Price'', kw_n_days = 1,
      kw_std_rise = 1 / 2, kw_std_drop = 1 / 2,
      kw_long_size = None, kw_short_size = None, kw_C = None\<rparr>"

definition example_table :: "(date \<times> row) list" where
  "example_table =
     [(0, example_row 10 10), (1, example_row 10 11),
      (2, example_row 10 12), (3, example_row 11 12)]"


definition wide_kwargs :: kwargs where
  "wide_kwargs = example_kwargs\<lparr>kw_n_days := 2\<rparr>"

definition short_table :: "(date \<times> row) list" where
  "short_table = [(0, example_row 10 10), (1, example_row 11 9)]"


definition overdrawn_kwargs :: kwargs where
  "overdrawn_kwargs = example_kwargs\<lparr>kw_long_size := Some 2, kw_C := Some 1\<rparr>"

definition overdrawn_table :: "(date \<times> row) list" where
  "overdrawn_table =
     [(0, example_row (- 4) 10), (1, example_row (- 4) 11),
      (2, example_row (- 4) 12), (3, example_row (- (7 / 2)) 12)]"


section \<open>The settlement of one day\<close>

lemma record_day_ok:
  "0 < max_value b \<or> numpy_valued b \<Longrightarrow> \<exists>b'. record_day b = Inr b'"
  by (auto simp add: record_day_def Let_def max_def)

lemma record_day_fields:
  "record_day b = Inr b' \<Longrightarrow>
     cash b' = cash b \<and> position_value b' = position_value b \<and>
     position_size b' = position_size b \<and> t_cost b' = t_cost b \<and>
     initial_value b' = initial_value b \<and> last_price b' = last_price b \<and>
     numpy_valued b' = numpy_valued b"
  by (auto simp add: record_day_def Let_def split: if_splits)

lemma mark_to_market_fields:
  "cash (mark_to_market b p) = cash b \<and> position_size (mark_to_market b p) = position_size b \<and>
   t_cost (mark_to_market b p) = t_cost b \<and> max_value (mark_to_market b p) = max_value b \<and>
   initial_value (mark_to_market b p) = initial_value b \<and>
   pnl (mark_to_market b p) = pnl b \<and> drawdown (mark_to_market b p) = drawdown b \<and>
   (numpy_valued b \<longrightarrow> numpy_valued (mark_to_market b p))"
  by (simp add: mark_to_market_def Let_def)

lemma apply_order_keeps:
  "max_value (apply_order b p tr) = max_value b \<and>
   t_cost (apply_order b p tr) = t_cost b \<and>
   initial_value (apply_order b p tr) = initial_value b \<and>
   pnl (apply_order b p tr) = pnl b \<and> drawdown (apply_order b p tr) = drawdown b \<and>
   (numpy_valued b \<longrightarrow> numpy_valued (apply_order b p tr))"
  by (simp add: apply_order_def split: trade.splits)

lemma settle_ok:
  "0 < max_value b \<or> numpy_valued b \<Longrightarrow> \<exists>b'. settle b price tr = Inr b'"
proof (cases price)
  case None
  then show ?thesis by (simp add: settle_def)
next
  case (Some p)
  assume "0 < max_value b \<or> numpy_valued b"
  then have "0 < max_value (apply_order (mark_to_market b p) p tr) \<or>
             numpy_valued (apply_order (mark_to_market b p) p tr)"
    using mark_to_market_fields [of b p] apply_order_keeps [of "mark_to_market b p" p tr]
    by auto
  from record_day_ok [OF this] Some show ?thesis by (simp add: settle_def)
qed

lemma settle_priced:
  "settle b (Some P) tr = Inr b' \<Longrightarrow>
     cash b' = cash (apply_order (mark_to_market b P) P tr) \<and>
     position_value b' = position_value (apply_order (mark_to_market b P) P tr) \<and>
     position_size b' = position_size (apply_order (mark_to_market b P) P tr) \<and>
     t_cost b' = t_cost b"
  using record_day_fields [of "apply_order (mark_to_market b P) P tr" b']
  by (simp add: settle_def apply_order_keeps mark_to_market_fields)

text \<open>
  C4. On a day with a price \<open>P\<close> and the order \<open>'close'\<close>, let \<open>V\<close> be the position
  value after the mark-to-market of line 69. Lines 72-74 leave
  \<open>cash = cash_before + V - C\<close> and \<open>position_value = 0\<close>, and these are the values of the
  ledger at the end of the day whenever the day completes; it completes at least when the
  running maximum is positive or the ledger holds numpy values.
\<close>

theorem close_settlement:
  "cash (apply_order (mark_to_market b P) P Close) =
     cash b + position_value (mark_to_market b P) - t_cost b \<and>
   position_value (apply_order (mark_to_market b P) P Close) = 0 \<and>
   (0 < max_value b \<or> numpy_valued b \<longrightarrow> (\<exists>b'. settle b (Some P) Close = Inr b')) \<and>
   (\<forall>b'. settle b (Some P) Close = Inr b' \<longrightarrow>
      cash b' = cash b + position_value (mark_to_market b P) - t_cost b \<and>
      position_value b' = 0)"
proof -
  have c: "cash (apply_order (mark_to_market b P) P Close) =
     cash b + position_value (mark_to_market b P) - t_cost b"
    by (simp add: apply_order_def mark_to_market_fields)
  have v: "position_value (apply_order (mark_to_market b P) P Close) = 0"
    by (simp add: apply_order_def)
  have k: "0 < max_value b \<or> numpy_valued b \<longrightarrow> (\<exists>b'. settle b (Some P) Close = Inr b')"
    using settle_ok by blast
  have s: "\<forall>b'. settle b (Some P) Close = Inr b' \<longrightarrow>
      cash b' = cash b + position_value (mark_to_market b P) - t_cost b \<and>
      position_value b' = 0"
  proof (intro allI impI)
    fix b' assume "settle b (Some P) Close = Inr b'"
    from settle_priced [OF this] c v
    show "cash b' = cash b + position_value (mark_to_market b P) - t_cost b \<and>
      position_value b' = 0" by simp
  qed
  show ?thesis by (intro conjI) (rule c, rule v, rule k, rule s)
qed

theorem close_settlement_witness:
  "(0 < max_value example_ledger \<or> numpy_valued example_ledger) \<and>
   (\<exists>b'. settle example_ledger (Some 11) Close = Inr b' \<and> cash b' = 900 + 200 - 1 / 10 \<and>
      position_value b' = 0)"
proof -
  have m: "position_value (mark_to_market example_ledger 11) = 200"
    by (simp add: mark_to_market_def example_ledger_def engine_day_return_def Let_def)
  have p: "0 < max_value example_ledger \<or> numpy_valued example_ledger"
    by (simp add: example_ledger_def)
  from close_settlement [of example_ledger 11] p
  obtain b' where s: "settle example_ledger (Some 11) Close = Inr b'" by blast
  with close_settlement [of example_ledger 11] m
  have "cash b' = 900 + 200 - 1 / 10 \<and> position_value b' = 0"
    by (simp add: example_ledger_def)
  with s p show ?thesis by blast
qed

text \<open>
  C3. On a day with a price \<open>P\<close> and a numeric order of size \<open>S\<close>, if the cash
  covers \<open>|S| * P + C\<close> then lines 76-79 leave \<open>cash = cash_before - |S| * P + C\<close>,
  \<open>position_size = position_size_before + S\<close> and a position value that is the
  marked-to-market value of line 69 plus \<open>S * P\<close>; the day completes with these values.
\<close>

theorem numeric_order_settlement:
  assumes enough: "cash b \<ge> \<bar>S\<bar> * P + t_cost b"
  shows "cash (apply_order (mark_to_market b P) P (Size S)) = cash b - \<bar>S\<bar> * P + t_cost b \<and>
   position_size (apply_order (mark_to_market b P) P (Size S)) = position_size b + S \<and>
   position_value (apply_order (mark_to_market b P) P (Size S)) =
     position_value (mark_to_market b P) + S * P \<and>
   (\<exists>b'. settle b (Some P) (Size S) = Inr b' \<and>
      cash b' = cash b - \<bar>S\<bar> * P + t_cost b \<and>
      position_size b' = position_size b + S \<and>
      position_value b' = position_value (mark_to_market b P) + S * P)"
proof -
  let ?m = "mark_to_market b P"
  let ?a = "apply_order ?m P (Size S)"
  from enough have e: "cash ?m \<ge> \<bar>S\<bar> * P + t_cost ?m"
    by (simp add: mark_to_market_fields)
  from e have c: "cash ?a = cash b - \<bar>S\<bar> * P + t_cost b"
    by (simp add: apply_order_def mark_to_market_fields)
  from e have z: "position_size ?a = position_size b + S"
    by (simp add: apply_order_def mark_to_market_fields)
  from e have v: "position_value ?a = position_value ?m + S * P"
    by (simp add: apply_order_def)
  from e have "numpy_valued ?a" by (simp add: apply_order_def)
  then have "0 < max_value ?a \<or> numpy_valued ?a" by simp
  from record_day_ok [OF this] obtain b' where r: "record_day ?a = Inr b'" by blast
  then have s: "settle b (Some P) (Size S) = Inr b'" by (simp add: settle_def)
  from settle_priced [OF s] c z v
  have "cash b' = cash b - \<bar>S\<bar> * P + t_cost b \<and>
      position_size b' = position_size b + S \<and>
      position_value b' = position_value ?m + S * P" by simp
  with s have x: "\<exists>b'. settle b (Some P) (Size S) = Inr b' \<and>
      cash b' = cash b - \<bar>S\<bar> * P + t_cost b \<and>
      position_size b' = position_size b + S \<and>
      position_value b' = position_value ?m + S * P" by blast
  show ?thesis by (intro conjI) (rule c, rule z, rule v, rule x)
qed

theorem numeric_order_settlement_witness:
  "cash example_ledger \<ge> \<bar>5\<bar> * 11 + t_cost example_ledger \<and>
   (\<exists>b'. settle example_ledger (Some 11) (Size 5) = Inr b' \<and>
      cash b' = 900 - 55 + 1 / 10 \<and> position_size b' = 15 \<and> position_value b' = 200 + 55)"
proof -
  have m: "position_value (mark_to_market example_ledger 11) = 200"
    by (simp add: mark_to_market_def example_ledger_def engine_day_return_def Let_def)
  have e: "cash example_ledger \<ge> \<bar>5\<bar> * 11 + t_cost example_ledger"
    by (simp add: example_ledger_def)
  from numeric_order_settlement [OF e]
  obtain b' where s: "settle example_ledger (Some 11) (Size 5) = Inr b'"
    and f: "cash b' = cash example_ledger - \<bar>5\<bar> * 11 + t_cost example_ledger"
      "position_size b' = position_size example_ledger + 5"
      "position_value b' = position_value (mark_to_market example_ledger 11) + 5 * 11"
    by blast
  from f m
  have "cash b' = 900 - 55 + 1 / 10 \<and> position_size b' = 15 \<and> position_value b' = 200 + 55"
    by (simp add: example_ledger_def)
  with s e show ?thesis by blast
qed



section \<open>Before the window is full\<close>

lemma unfilled_init: "unfilled (Tracker_init n) k \<longleftrightarrow> int k \<le> n"
  by (simp add: unfilled_def Tracker_init_def)

lemma unfilled_less: "unfilled t (Suc k) \<Longrightarrow> unfilled t k"
  by (simp add: unfilled_def)

lemma Tracker_call_unfilled:
  assumes "unfilled t (Suc k)"
  shows "Tracker_call t d p = Inr (t\<lparr>price_window := price_window t @ [p]\<rparr>)"
    and "unfilled (t\<lparr>price_window := price_window t @ [p]\<rparr>) k"
  using assms by (simp_all add: Tracker_call_def unfilled_def Let_def)

lemma Tracker_feed_unfilled:
  "unfilled t (length xs) \<Longrightarrow>
   Tracker_feed t xs = Inr (t\<lparr>price_window := price_window t @ map snd xs\<rparr>)"
proof (induction xs arbitrary: t)
  case Nil
  then show ?case by simp
next
  case (Cons x xs)
  let ?t = "t\<lparr>price_window := price_window t @ [snd x]\<rparr>"
  from Cons.prems have u: "unfilled t (Suc (length xs))" by simp
  have c: "Tracker_call t (fst x) (snd x) = Inr ?t" by (rule Tracker_call_unfilled(1) [OF u])
  have "unfilled ?t (length xs)" by (rule Tracker_call_unfilled(2) [OF u])
  then have "Tracker_feed ?t xs = Inr (?t\<lparr>price_window := price_window ?t @ map snd xs\<rparr>)"
    by (rule Cons.IH)
  with c show ?case by simp
qed

lemma decide_signal_quiet:
  "std t = Some 0 \<Longrightarrow> day_return t = Some 0 \<Longrightarrow> decide_signal sg t = 0"
  by (simp add: decide_signal_def fl_less_def fl_scale_def fl_neg_def)

lemma signal_call_unfilled:
  assumes u: "unfilled (tracker sg) (Suc k)"
    and a: "r (asset_a sg) \<noteq> None" and b: "r (asset_b sg) \<noteq> None"
  shows "\<exists>sg'. StdDevPairSignal_call sg d r = Inr (sg', asset_a sg, 0) \<and>
           unfilled (tracker sg') k \<and> asset_a sg' = asset_a sg \<and> asset_b sg' = asset_b sg"
proof -
  from a obtain pa where pa: "r (asset_a sg) = Some pa" by blast
  from b obtain pb where pb: "r (asset_b sg) = Some pb" by blast
  let ?t = "(tracker sg)\<lparr>price_window := price_window (tracker sg) @ [pb]\<rparr>"
  have ut: "unfilled ?t k" by (rule Tracker_call_unfilled(2) [OF u])
  have ct: "Tracker_call (tracker sg) d pb = Inr ?t" by (rule Tracker_call_unfilled(1) [OF u])
  from ut have q: "decide_signal sg ?t = 0"
    by (intro decide_signal_quiet) (simp_all add: unfilled_def)
  show ?thesis
  proof (cases "isnan pb \<or> isnan pa")
    case True
    then have "StdDevPairSignal_call sg d r = Inr (sg, asset_a sg, 0)"
      by (auto simp add: StdDevPairSignal_call_def row_get_def pa pb)
    moreover have "unfilled (tracker sg) k" by (rule unfilled_less [OF u])
    ultimately show ?thesis by blast
  next
    case False
    from u have "\<not> isnan (std (tracker sg))" by (simp add: unfilled_def isnan_def)
    with False have "StdDevPairSignal_call sg d r = Inr (sg\<lparr>tracker := ?t\<rparr>, asset_a sg, 0)"
      by (simp add: StdDevPairSignal_call_def row_get_def pa pb ct q)
    moreover from ut have "unfilled (tracker (sg\<lparr>tracker := ?t\<rparr>)) k" by simp
    moreover have "asset_a (sg\<lparr>tracker := ?t\<rparr>) = asset_a sg" by simp
    moreover have "asset_b (sg\<lparr>tracker := ?t\<rparr>) = asset_b sg" by simp
    ultimately show ?thesis by blast
  qed
qed

lemma strategy_call_unfilled:
  assumes u: "unfilled (tracker (stdsignal st)) (Suc k)"
    and a: "r (asset_a (stdsignal st)) \<noteq> None" and b: "r (asset_b (stdsignal st)) \<noteq> None"
  shows "\<exists>st'. FuturesStdPairStrategy_call st d r = Inr (st', asset_a (stdsignal st), Close) \<and>
           unfilled (tracker (stdsignal st')) k \<and>
           asset_a (stdsignal st') = asset_a (stdsignal st) \<and>
           asset_b (stdsignal st') = asset_b (stdsignal st)"
proof -
  from signal_call_unfilled [OF u a b, of d]
  obtain sg' where s: "StdDevPairSignal_call (stdsignal st) d r = Inr (sg', asset_a (stdsignal st), 0)"
    and i: "unfilled (tracker sg') k" "asset_a sg' = asset_a (stdsignal st)"
       "asset_b sg' = asset_b (stdsignal st)" by blast
  have c: "FuturesStdPairStrategy_call st d r =
        Inr (st\<lparr>stdsignal := sg'\<rparr>, asset_a (stdsignal st), Close)"
    by (simp add: FuturesStdPairStrategy_call_def s Let_def)
  from i have "unfilled (tracker (stdsignal (st\<lparr>stdsignal := sg'\<rparr>))) k \<and>
    asset_a (stdsignal (st\<lparr>stdsignal := sg'\<rparr>)) = asset_a (stdsignal st) \<and>
    asset_b (stdsignal (st\<lparr>stdsignal := sg'\<rparr>)) = asset_b (stdsignal st)" by simp
  with c show ?thesis by blast
qed

lemma has_columns_Cons:
  "has_columns sg (x # xs) \<longleftrightarrow>
     snd x (asset_a sg) \<noteq> None \<and> snd x (asset_b sg) \<noteq> None \<and> has_columns sg xs"
  by (simp add: has_columns_def)

lemma has_columns_cong:
  "asset_a sg' = asset_a sg \<Longrightarrow> asset_b sg' = asset_b sg \<Longrightarrow>
   has_columns sg' ds = has_columns sg ds"
  by (simp add: has_columns_def)

lemma signal_run_unfilled:
  "unfilled (tracker sg) (length ds) \<Longrightarrow> has_columns sg ds \<Longrightarrow>
   \<exists>sg'. signal_run sg ds = Inr (sg', replicate (length ds) 0) \<and>
          moving_average (tracker sg') = Some 0 \<and> std (tracker sg') = Some 0"
proof (induction ds arbitrary: sg)
  case Nil
  then show ?case by (simp add: unfilled_def)
next
  case (Cons x xs)
  from Cons.prems have u: "unfilled (tracker sg) (Suc (length xs))" by simp
  from Cons.prems have c: "snd x (asset_a sg) \<noteq> None" "snd x (asset_b sg) \<noteq> None"
    "has_columns sg xs" by (simp_all add: has_columns_Cons)
  from signal_call_unfilled [OF u c(1) c(2), of "fst x"]
  obtain sg1 where s: "StdDevPairSignal_call sg (fst x) (snd x) = Inr (sg1, asset_a sg, 0)"
    and i: "unfilled (tracker sg1) (length xs)" "asset_a sg1 = asset_a sg"
       "asset_b sg1 = asset_b sg" by blast
  from c(3) i has_columns_cong [of sg1 sg xs] have "has_columns sg1 xs" by simp
  from Cons.IH [OF i(1) this]
  obtain sg' where r: "signal_run sg1 xs = Inr (sg', replicate (length xs) 0)"
    and m: "moving_average (tracker sg') = Some 0 \<and> std (tracker sg') = Some 0" by blast
  from s r have "signal_run sg (x # xs) = Inr (sg', replicate (length (x # xs)) 0)" by simp
  with m show ?case by blast
qed

lemma strategy_run_unfilled:
  "unfilled (tracker (stdsignal st)) (length ds) \<Longrightarrow> has_columns (stdsignal st) ds \<Longrightarrow>
   \<exists>st'. strategy_run st ds = Inr (st', replicate (length ds) Close) \<and>
          moving_average (tracker (stdsignal st')) = Some 0 \<and>
          std (tracker (stdsignal st')) = Some 0"
proof (induction ds arbitrary: st)
  case Nil
  then show ?case by (simp add: unfilled_def)
next
  case (Cons x xs)
  let ?sg = "stdsignal st"
  from Cons.prems have u: "unfilled (tracker ?sg) (Suc (length xs))" by simp
  from Cons.prems have c: "snd x (asset_a ?sg) \<noteq> None" "snd x (asset_b ?sg) \<noteq> None"
    "has_columns ?sg xs" by (simp_all add: has_columns_Cons)
  from strategy_call_unfilled [OF u c(1) c(2), of "fst x"]
  obtain st1 where s: "FuturesStdPairStrategy_call st (fst x) (snd x) = Inr (st1, asset_a ?sg, Close)"
    and i: "unfilled (tracker (stdsignal st1)) (length xs)"
       "asset_a (stdsignal st1) = asset_a ?sg"
       "asset_b (stdsignal st1) = asset_b ?sg" by blast
  from c(3) i has_columns_cong [of "stdsignal st1" ?sg xs]
  have "has_columns (stdsignal st1) xs" by simp
  from Cons.IH [OF i(1) this]
  obtain st' where r: "strategy_run st1 xs = Inr (st', replicate (length xs) Close)"
    and m: "moving_average (tracker (stdsignal st')) = Some 0 \<and>
          std (tracker (stdsignal st')) = Some 0" by blast
  from s r have "strategy_run st (x # xs) = Inr (st', replicate (length (x # xs)) Close)" by simp
  with m show ?case by blast
qed

lemma fresh_strategy:
  "tracker (stdsignal (FuturesStdPairStrategy_init kw)) = Tracker_init (kw_n_days kw) \<and>
   asset_a (stdsignal (FuturesStdPairStrategy_init kw)) = kw_asset_a kw \<and>
   asset_b (stdsignal (FuturesStdPairStrategy_init kw)) = kw_asset_b kw"
  by (simp add: FuturesStdPairStrategy_init_def StdDevPairSignal_init_def)

lemma settle_keeps_ok:
  assumes s: "settle b price tr = Inr b'" and ok: "0 < max_value b \<or> numpy_valued b"
  shows "0 < max_value b' \<or> numpy_valued b'"
proof (cases price)
  case None
  with s ok show ?thesis by (auto simp add: settle_def)
next
  case (Some p)
  let ?a = "apply_order (mark_to_market b p) p tr"
  from s Some have r: "record_day ?a = Inr b'" by (simp add: settle_def)
  from ok have o: "0 < max_value ?a \<or> numpy_valued ?a"
    using mark_to_market_fields [of b p] apply_order_keeps [of "mark_to_market b p" p tr]
    by auto
  from r have "max_value ?a \<le> max_value b'"
    by (auto simp add: record_day_def Let_def split: if_splits)
  moreover from record_day_fields [OF r] have "numpy_valued b' = numpy_valued ?a" by simp
  ultimately show ?thesis using o by auto
qed

lemma settle_flat_close:
  assumes pv: "position_value b = 0" and ok: "0 < max_value b \<or> numpy_valued b"
  shows "\<exists>b'. settle b price Close = Inr b' \<and> position_value b' = 0 \<and>
           position_size b' = position_size b \<and> t_cost b' = t_cost b \<and>
           cash b' = cash b - (if isnan price then 0 else t_cost b)"
proof (cases price)
  case None
  with pv show ?thesis by (simp add: settle_def isnan_def)
next
  case (Some p)
  from settle_ok [OF ok, of "Some p" Close]
  obtain b' where s: "settle b (Some p) Close = Inr b'" by blast
  from pv have m: "position_value (mark_to_market b p) = 0"
    by (simp add: mark_to_market_def Let_def)
  from settle_priced [OF s] m
  have "position_value b' = 0 \<and> position_size b' = position_size b \<and> t_cost b' = t_cost b \<and>
           cash b' = cash b - t_cost b"
    by (simp add: apply_order_def mark_to_market_fields)
  with s Some show ?thesis by (simp add: isnan_def)
qed

lemma day_unfilled:
  assumes u: "unfilled (tracker (stdsignal st)) (Suc k)"
    and a: "r (asset_a (stdsignal st)) \<noteq> None" and b: "r (asset_b (stdsignal st)) \<noteq> None"
    and pv: "position_value l = 0" and ok: "0 < max_value l \<or> numpy_valued l"
  shows "\<exists>l' st'. day l st d r = Inr (l', st') \<and>
           unfilled (tracker (stdsignal st')) k \<and>
           asset_a (stdsignal st') = asset_a (stdsignal st) \<and>
           asset_b (stdsignal st') = asset_b (stdsignal st) \<and>
           position_value l' = 0 \<and> position_size l' = position_size l \<and>
           t_cost l' = t_cost l \<and> (0 < max_value l' \<or> numpy_valued l') \<and>
           cash l' = cash l - (if is_present (asset_a (stdsignal st)) (d, r) then t_cost l else 0)"
proof -
  from strategy_call_unfilled [OF u a b, of d]
  obtain st' where c: "FuturesStdPairStrategy_call st d r = Inr (st', asset_a (stdsignal st), Close)"
    and i: "unfilled (tracker (stdsignal st')) k"
       "asset_a (stdsignal st') = asset_a (stdsignal st)"
       "asset_b (stdsignal st') = asset_b (stdsignal st)" by blast
  from a obtain pa where pa: "r (asset_a (stdsignal st)) = Some pa" by blast
  from settle_flat_close [OF pv ok, of pa]
  obtain l' where s: "settle l pa Close = Inr l'"
    and f: "position_value l' = 0" "position_size l' = position_size l" "t_cost l' = t_cost l"
      "cash l' = cash l - (if isnan pa then 0 else t_cost l)" by blast
  from c pa s have d: "day l st d r = Inr (l', st')"
    by (simp add: day_def row_get_def)
  from settle_keeps_ok [OF s ok] have o: "0 < max_value l' \<or> numpy_valued l'" .
  from f(4) pa have "cash l' = cash l - (if is_present (asset_a (stdsignal st)) (d, r) then t_cost l else 0)"
    by (simp add: is_present_def)
  with d i f(1,2,3) o show ?thesis by blast
qed

lemma present_days_Cons:
  "present_days a (x # xs) = (if is_present a x then 1 else 0) + present_days a xs"
  by (simp add: present_days_def)

lemma run_unfilled:
  "unfilled (tracker (stdsignal st)) (length ds) \<Longrightarrow> has_columns (stdsignal st) ds \<Longrightarrow>
   position_value l = 0 \<Longrightarrow> 0 < max_value l \<or> numpy_valued l \<Longrightarrow>
   \<exists>l' st'. run l st ds = Inr (l', st') \<and> position_value l' = 0 \<and>
     position_size l' = position_size l \<and> t_cost l' = t_cost l \<and>
     cash l' = cash l - t_cost l * real (present_days (asset_a (stdsignal st)) ds)"
proof (induction ds arbitrary: st l)
  case Nil
  then show ?case by (simp add: present_days_def)
next
  case (Cons x xs)
  let ?sg = "stdsignal st"
  from Cons.prems have u: "unfilled (tracker ?sg) (Suc (length xs))" by simp
  from Cons.prems have c: "snd x (asset_a ?sg) \<noteq> None" "snd x (asset_b ?sg) \<noteq> None"
    "has_columns ?sg xs" by (simp_all add: has_columns_Cons)
  from day_unfilled [OF u c(1) c(2) Cons.prems(3) Cons.prems(4), of "fst x"]
  obtain l1 st1 where d: "day l st (fst x) (snd x) = Inr (l1, st1)"
    and i: "unfilled (tracker (stdsignal st1)) (length xs)"
       "asset_a (stdsignal st1) = asset_a ?sg" "asset_b (stdsignal st1) = asset_b ?sg"
    and f: "position_value l1 = 0" "position_size l1 = position_size l" "t_cost l1 = t_cost l"
       "0 < max_value l1 \<or> numpy_valued l1"
       "cash l1 = cash l - (if is_present (asset_a ?sg) (fst x, snd x) then t_cost l else 0)"
    by blast
  from c(3) i has_columns_cong [of "stdsignal st1" ?sg xs]
  have "has_columns (stdsignal st1) xs" by simp
  from Cons.IH [OF i(1) this f(1) f(4)]
  obtain l' st' where r: "run l1 st1 xs = Inr (l', st')"
    and g: "position_value l' = 0" "position_size l' = position_size l1" "t_cost l' = t_cost l1"
      "cash l' = cash l1 - t_cost l1 * real (present_days (asset_a (stdsignal st1)) xs)"
    by blast
  from d r have rr: "run l st (x # xs) = Inr (l', st')" by simp
  from g(4) f(5) f(3) i(2)
  have "cash l' = cash l - t_cost l * real (present_days (asset_a ?sg) (x # xs))"
    by (cases "is_present (asset_a ?sg) x") (simp_all add: present_days_Cons algebra_simps)
  with rr g(1) g(2) g(3) f(2) f(3) show ?case by auto
qed

section \<open>The first N days\<close>

lemma short_table_columns:
  "has_columns (stdsignal (FuturesStdPairStrategy_init wide_kwargs)) short_table"
  by (simp add: has_columns_def fresh_strategy wide_kwargs_def example_kwargs_def
      short_table_def example_row_def)

text \<open>
  C7 as the spec states it fails: a fresh tracker with \<open>N = 2\<close> that has seen one price
  has mean and variance \<open>0.0\<close>, the values \<open>__init__\<close> gave them, and not NaN.
\<close>

theorem fresh_tracker_counterexample:
  "Tracker_feed (Tracker_init 2) [(0, Some 10)] =
     Inr \<lparr>prev_date = None, prev_price = Some 0, day_return = Some 0, win_n = 2,
          price_window = [Some 10], moving_average = Some 0, std = Some 0\<rparr> \<and>
   \<not> isnan (moving_average ((Tracker_init 2)\<lparr>price_window := [Some 10]\<rparr>)) \<and>
   \<not> isnan (std ((Tracker_init 2)\<lparr>price_window := [Some 10]\<rparr>))"
  by (simp add: Tracker_init_def Tracker_call_def isnan_def Let_def)

text \<open>
  C7, amended. For every sequence of at most \<open>N\<close> observations fed to a fresh tracker, the
  test of line 46 never succeeds: the window holds exactly the observations and mean,
  variance and day return keep their initial value \<open>0.0\<close>. For every table of at most
  \<open>N\<close> rows that have both asset columns, a fresh signal answers \<open>0\<close> and a fresh
  strategy answers \<open>'close'\<close> on each row, and mean and variance are still \<open>0.0\<close>
  afterwards.
\<close>

theorem before_window_full:
  "(int (length xs) \<le> n \<longrightarrow>
      Tracker_feed (Tracker_init n) xs = Inr ((Tracker_init n)\<lparr>price_window := map snd xs\<rparr>) \<and>
      moving_average (Tracker_init n) = Some 0 \<and> std (Tracker_init n) = Some 0 \<and>
      day_return (Tracker_init n) = Some 0) \<and>
   (int (length ds) \<le> kw_n_days kw \<and>
    has_columns (stdsignal (FuturesStdPairStrategy_init kw)) ds \<longrightarrow>
      (\<exists>sg'. signal_run (stdsignal (FuturesStdPairStrategy_init kw)) ds =
                Inr (sg', replicate (length ds) 0) \<and>
             moving_average (tracker sg') = Some 0 \<and> std (tracker sg') = Some 0) \<and>
      (\<exists>st'. strategy_run (FuturesStdPairStrategy_init kw) ds =
                Inr (st', replicate (length ds) Close) \<and>
             moving_average (tracker (stdsignal st')) = Some 0 \<and>
             std (tracker (stdsignal st')) = Some 0))"
proof (intro conjI impI)
  assume "int (length xs) \<le> n"
  then have "unfilled (Tracker_init n) (length xs)" by (simp add: unfilled_init)
  from Tracker_feed_unfilled [OF this]
  show "Tracker_feed (Tracker_init n) xs = Inr ((Tracker_init n)\<lparr>price_window := map snd xs\<rparr>)"
    by (simp add: Tracker_init_def)
next
  show "moving_average (Tracker_init n) = Some 0" by (simp add: Tracker_init_def)
  show "std (Tracker_init n) = Some 0" by (simp add: Tracker_init_def)
  show "day_return (Tracker_init n) = Some 0" by (simp add: Tracker_init_def)
next
  let ?st = "FuturesStdPairStrategy_init kw"
  assume h: "int (length ds) \<le> kw_n_days kw \<and> has_columns (stdsignal ?st) ds"
  then have u: "unfilled (tracker (stdsignal ?st)) (length ds)"
    by (simp add: fresh_strategy unfilled_init)
  from h have c: "has_columns (stdsignal ?st) ds" by simp
  from signal_run_unfilled [OF u c]
  show "\<exists>sg'. signal_run (stdsignal ?st) ds = Inr (sg', replicate (length ds) 0) \<and>
             moving_average (tracker sg') = Some 0 \<and> std (tracker sg') = Some 0" .
  from strategy_run_unfilled [OF u c]
  show "\<exists>st'. strategy_run ?st ds = Inr (st', replicate (length ds) Close) \<and>
             moving_average (tracker (stdsignal st')) = Some 0 \<and>
             std (tracker (stdsignal st')) = Some 0" .
qed

theorem before_window_full_witness:
  "int (length [(0::nat, Some (10::real)), (1, Some 11)]) \<le> 2 \<and>
   Tracker_feed (Tracker_init 2) [(0, Some 10), (1, Some 11)] =
     Inr \<lparr>prev_date = None, prev_price = Some 0, day_return = Some 0, win_n = 2,
          price_window = [Some 10, Some 11], moving_average = Some 0, std = Some 0\<rparr> \<and>
   int (length short_table) \<le> kw_n_days wide_kwargs \<and>
   has_columns (stdsignal (FuturesStdPairStrategy_init wide_kwargs)) short_table \<and>
   (\<exists>st'. strategy_run (FuturesStdPairStrategy_init wide_kwargs) short_table =
            Inr (st', [Close, Close]))"
proof -
  have l: "int (length [(0::nat, Some (10::real)), (1, Some 11)]) \<le> 2" by simp
  from before_window_full [of "[(0, Some 10), (1, Some 11)]" 2] l
  have t: "Tracker_feed (Tracker_init 2) [(0, Some 10), (1, Some 11)] =
     Inr ((Tracker_init 2)\<lparr>price_window := map snd [(0::nat, Some (10::real)), (1, Some 11)]\<rparr>)"
    by blast
  have k: "int (length short_table) \<le> kw_n_days wide_kwargs"
    by (simp add: short_table_def wide_kwargs_def example_kwargs_def)
  from before_window_full [of _ _ short_table wide_kwargs] k short_table_columns
  obtain st' where "strategy_run (FuturesStdPairStrategy_init wide_kwargs) short_table =
            Inr (st', replicate (length short_table) Close)" by blast
  then have s: "\<exists>st'. strategy_run (FuturesStdPairStrategy_init wide_kwargs) short_table =
            Inr (st', [Close, Close])"
    by (simp add: short_table_def numeral_2_eq_2)
  from t have t': "Tracker_feed (Tracker_init 2) [(0, Some 10), (1, Some 11)] =
     Inr \<lparr>prev_date = None, prev_price = Some 0, day_return = Some 0, win_n = 2,
          price_window = [Some 10, Some 11], moving_average = Some 0, std = Some 0\<rparr>"
    by (simp add: Tracker_init_def)
  show ?thesis by (intro conjI) (rule l, rule t', rule k, rule short_table_columns, rule s)
qed

lemma strategy_call_quiet:
  assumes s: "StdDevPairSignal_call (stdsignal st) d r = Inr (sg', a, 0)"
  shows "FuturesStdPairStrategy_call st d r = Inr (st\<lparr>stdsignal := sg'\<rparr>, a, Close)"
  by (simp add: FuturesStdPairStrategy_call_def s Let_def)

lemma ledger_init_fields:
  "position_value (ledger_init c kw) = 0 \<and> position_size (ledger_init c kw) = 0 \<and>
   cash (ledger_init c kw) = c \<and> max_value (ledger_init c kw) = c \<and>
   t_cost (ledger_init c kw) = kw_get (kw_C kw) (1 / 10) \<and>
   pnl (ledger_init c kw) = [] \<and> drawdown (ledger_init c kw) = [] \<and>
   \<not> numpy_valued (ledger_init c kw)"
  by (simp add: ledger_init_def)

lemma select_named:
  "select_strategy (Name ''future_pairs_strategy'') kw = Inr (FuturesStdPairStrategy_init kw)"
  by (simp add: select_strategy_def lower_def lower_char_def)

text \<open>
  C10. On a day on which the signal answers \<open>0\<close> and the traded asset has a price, a
  ledger with no position value ends lines 72-74 with \<open>cash = cash_before - C\<close>, which
  is strictly less when \<open>C\<close> is positive; the day is the recording of that ledger, so it
  completes whenever the running maximum is positive or the ledger holds numpy values,
  and ends with that cash. In particular a run from fresh over at most \<open>N\<close> rows, with
  positive initial cash, ends with the initial cash less \<open>C\<close> for every row in which
  the traded asset has a price, and with no position.
\<close>

theorem flat_day_debits_cost:
  "(StdDevPairSignal_call (stdsignal st) d r = Inr (sg', a, 0) \<and> r a = Some (Some P) \<and>
    position_value b = 0 \<longrightarrow>
      cash (apply_order (mark_to_market b P) P Close) = cash b - t_cost b \<and>
      (0 < t_cost b \<longrightarrow> cash (apply_order (mark_to_market b P) P Close) < cash b) \<and>
      day b st d r =
        (case record_day (apply_order (mark_to_market b P) P Close) of
           Inl e \<Rightarrow> Inl e | Inr b' \<Rightarrow> Inr (b', st\<lparr>stdsignal := sg'\<rparr>)) \<and>
      (0 < max_value b \<or> numpy_valued b \<longrightarrow> (\<exists>b' st'. day b st d r = Inr (b', st'))) \<and>
      (\<forall>b' st'. day b st d r = Inr (b', st') \<longrightarrow>
         cash b' = cash b - t_cost b \<and> position_value b' = 0)) \<and>
   (int (length ds) \<le> kw_n_days kw \<and>
    has_columns (stdsignal (FuturesStdPairStrategy_init kw)) ds \<and> 0 < c \<longrightarrow>
      (\<exists>b' st'. Backtest_init ds (Name ''future_pairs_strategy'') c kw = Inr (b', st') \<and>
         cash b' = c - kw_get (kw_C kw) (1 / 10) * real (present_days (kw_asset_a kw) ds) \<and>
         position_value b' = 0 \<and> position_size b' = 0))"
proof (intro conjI impI)
  assume h: "StdDevPairSignal_call (stdsignal st) d r = Inr (sg', a, 0) \<and> r a = Some (Some P) \<and>
    position_value b = 0"
  let ?a = "apply_order (mark_to_market b P) P Close"
  from h have m: "position_value (mark_to_market b P) = 0"
    by (simp add: mark_to_market_def Let_def)
  then show c: "cash ?a = cash b - t_cost b"
    by (simp add: apply_order_def mark_to_market_fields)
  have v: "position_value ?a = 0" by (simp add: apply_order_def)
  from h have q: "FuturesStdPairStrategy_call st d r = Inr (st\<lparr>stdsignal := sg'\<rparr>, a, Close)"
    by (simp add: strategy_call_quiet)
  from h q show dd: "day b st d r =
        (case record_day ?a of Inl e \<Rightarrow> Inl e | Inr b' \<Rightarrow> Inr (b', st\<lparr>stdsignal := sg'\<rparr>))"
    by (simp add: day_def row_get_def settle_def split: sum.splits)
  show "\<forall>b' st'. day b st d r = Inr (b', st') \<longrightarrow>
         cash b' = cash b - t_cost b \<and> position_value b' = 0"
  proof (intro allI impI)
    fix b' st' assume "day b st d r = Inr (b', st')"
    with dd have "record_day ?a = Inr b'" by (simp split: sum.splits)
    from record_day_fields [OF this] c v
    show "cash b' = cash b - t_cost b \<and> position_value b' = 0" by simp
  qed
  {
    assume "0 < t_cost b"
    with c show "cash ?a < cash b" by simp
  }
  {
    assume ok: "0 < max_value b \<or> numpy_valued b"
    from settle_ok [OF ok, of "Some P" Close]
    obtain b' where "record_day ?a = Inr b'" by (auto simp add: settle_def)
    with dd show "\<exists>b' st'. day b st d r = Inr (b', st')" by simp
  }
next
  let ?st = "FuturesStdPairStrategy_init kw"
  let ?l = "ledger_init c kw"
  assume h: "int (length ds) \<le> kw_n_days kw \<and> has_columns (stdsignal ?st) ds \<and> 0 < c"
  then have u: "unfilled (tracker (stdsignal ?st)) (length ds)"
    by (simp add: fresh_strategy unfilled_init)
  from h have cl: "has_columns (stdsignal ?st) ds" by simp
  have pv: "position_value ?l = 0" by (simp add: ledger_init_fields)
  from h have ok: "0 < max_value ?l \<or> numpy_valued ?l" by (simp add: ledger_init_fields)
  from run_unfilled [OF u cl pv ok]
  obtain l' st' where r: "run ?l ?st ds = Inr (l', st')"
    and f: "position_value l' = 0" "position_size l' = position_size ?l" "t_cost l' = t_cost ?l"
      "cash l' = cash ?l - t_cost ?l * real (present_days (asset_a (stdsignal ?st)) ds)"
    by blast
  from r have "Backtest_init ds (Name ''future_pairs_strategy'') c kw = Inr (l', st')"
    by (simp add: Backtest_init_def select_named)
  moreover from f(4) have "cash l' = c - kw_get (kw_C kw) (1 / 10) * real (present_days (kw_asset_a kw) ds)"
    by (simp add: ledger_init_fields fresh_strategy)
  moreover from f(2) have "position_size l' = 0" by (simp add: ledger_init_fields)
  ultimately show "\<exists>b' st'. Backtest_init ds (Name ''future_pairs_strategy'') c kw = Inr (b', st') \<and>
         cash b' = c - kw_get (kw_C kw) (1 / 10) * real (present_days (kw_asset_a kw) ds) \<and>
         position_value b' = 0 \<and> position_size b' = 0"
    using f(1) by blast
qed

theorem flat_day_debits_cost_witness:
  "StdDevPairSignal_call (stdsignal (FuturesStdPairStrategy_init wide_kwargs)) 0
     (example_row 10 10) =
     Inr ((stdsignal (FuturesStdPairStrategy_init wide_kwargs))
            \<lparr>tracker := (Tracker_init 2)\<lparr>price_window := [Some 10]\<rparr>\<rparr>, ''A Price'', 0) \<and>
   example_row 10 10 ''A Price'' = Some (Some 10) \<and>
   position_value flat_ledger = 0 \<and>
   (0 < max_value flat_ledger \<or> numpy_valued flat_ledger) \<and>
   0 < t_cost flat_ledger \<and>
   cash (apply_order (mark_to_market flat_ledger 10) 10 Close) < cash flat_ledger \<and>
   (\<exists>b' st'. day flat_ledger (FuturesStdPairStrategy_init wide_kwargs) 0 (example_row 10 10) =
        Inr (b', st') \<and> cash b' = 1000 - 1 / 10) \<and>
   int (length short_table) \<le> kw_n_days wide_kwargs \<and>
   has_columns (stdsignal (FuturesStdPairStrategy_init wide_kwargs)) short_table \<and>
   (0::real) < 1000 \<and>
   (\<exists>b' st'. Backtest_init short_table (Name ''future_pairs_strategy'') 1000 wide_kwargs =
        Inr (b', st') \<and> cash b' = 1000 - 2 / 10 \<and> position_value b' = 0 \<and>
        position_size b' = 0)"
proof -
  let ?st = "FuturesStdPairStrategy_init wide_kwargs"
  let ?sg = "(stdsignal ?st)\<lparr>tracker := (Tracker_init 2)\<lparr>price_window := [Some 10]\<rparr>\<rparr>"
  have s: "StdDevPairSignal_call (stdsignal ?st) 0 (example_row 10 10) =
     Inr (?sg, ''A Price'', 0)"
    by (simp add: StdDevPairSignal_call_def FuturesStdPairStrategy_init_def
        StdDevPairSignal_init_def wide_kwargs_def example_kwargs_def example_row_def
        row_get_def isnan_def Tracker_init_def Tracker_call_def decide_signal_def
        fl_less_def fl_scale_def fl_neg_def Let_def)
  have p: "example_row 10 10 ''A Price'' = Some (Some 10)" by (simp add: example_row_def)
  have v: "position_value flat_ledger = 0" by (simp add: flat_ledger_def)
  have o: "0 < max_value flat_ledger \<or> numpy_valued flat_ledger"
    by (simp add: flat_ledger_def example_ledger_def)
  have c: "cash flat_ledger - t_cost flat_ledger = 1000 - 1 / 10"
    by (simp add: flat_ledger_def example_ledger_def)
  note t = flat_day_debits_cost [of ?st 0 "example_row 10 10" ?sg "''A Price''" 10 flat_ledger
      short_table wide_kwargs 1000]
  have tc: "0 < t_cost flat_ledger" by (simp add: flat_ledger_def example_ledger_def)
  from t s p v tc
  have lt: "cash (apply_order (mark_to_market flat_ledger 10) 10 Close) < cash flat_ledger"
    by blast
  from t s p v o obtain b' st' where
    d: "day flat_ledger ?st 0 (example_row 10 10) = Inr (b', st')" by blast
  from t s p v d have "cash b' = cash flat_ledger - t_cost flat_ledger" by blast
  with c d have dd: "\<exists>b' st'. day flat_ledger ?st 0 (example_row 10 10) =
        Inr (b', st') \<and> cash b' = 1000 - 1 / 10" by auto
  have k: "int (length short_table) \<le> kw_n_days wide_kwargs"
    by (simp add: short_table_def wide_kwargs_def example_kwargs_def)
  have z: "(0::real) < 1000" by simp
  have n: "kw_get (kw_C wide_kwargs) (1 / 10) * real (present_days (kw_asset_a wide_kwargs) short_table)
     = 2 / 10"
    by (simp add: kw_get_def wide_kwargs_def example_kwargs_def present_days_def
        is_present_def short_table_def example_row_def isnan_def)
  from t k short_table_columns z
  obtain l' su' where r: "Backtest_init short_table (Name ''future_pairs_strategy'') 1000 wide_kwargs
       = Inr (l', su')"
    and f: "cash l' = 1000 - kw_get (kw_C wide_kwargs) (1 / 10) *
              real (present_days (kw_asset_a wide_kwargs) short_table)"
       "position_value l' = 0" "position_size l' = 0" by blast
  from f(1) n have "cash l' = 1000 - 2 / 10" by simp
  with r f(2,3) have rr: "\<exists>b' st'. Backtest_init short_table (Name ''future_pairs_strategy'') 1000
       wide_kwargs = Inr (b', st') \<and> cash b' = 1000 - 2 / 10 \<and> position_value b' = 0 \<and>
        position_size b' = 0" by blast
  show ?thesis
    by (intro conjI) (rule s, rule p, rule v, rule o, rule tc, rule lt, rule dd, rule k,
        rule short_table_columns, rule z, rule rr)
qed

section \<open>The whole run\<close>

lemma window_stats_ok: "w \<noteq> [] \<Longrightarrow> \<exists>ms. window_stats w = Inr ms"
  by (simp add: window_stats_def Let_def)

lemma Tracker_call_total:
  assumes n: "1 \<le> win_n t"
  shows "\<exists>t'. Tracker_call t d p = Inr t' \<and> win_n t' = win_n t"
proof (cases "int (length (price_window t @ [p])) > win_n t")
  case True
  with n have "price_window t \<noteq> []" by auto
  from window_stats_ok [OF this] obtain ms where "window_stats (price_window t) = Inr ms"
    by blast
  with True show ?thesis by (simp add: Tracker_call_def Let_def)
next
  case False
  then show ?thesis by (simp add: Tracker_call_def Let_def)
qed

lemma signal_call_total:
  assumes n: "1 \<le> win_n (tracker sg)"
    and a: "r (asset_a sg) \<noteq> None" and b: "r (asset_b sg) \<noteq> None"
  shows "\<exists>sg' s. StdDevPairSignal_call sg d r = Inr (sg', asset_a sg, s) \<and>
           win_n (tracker sg') = win_n (tracker sg) \<and>
           asset_a sg' = asset_a sg \<and> asset_b sg' = asset_b sg"
proof -
  from a obtain pa where pa: "r (asset_a sg) = Some pa" by blast
  from b obtain pb where pb: "r (asset_b sg) = Some pb" by blast
  show ?thesis
  proof (cases "isnan pb \<or> isnan pa \<or> isnan (std (tracker sg))")
    case True
    then have "StdDevPairSignal_call sg d r = Inr (sg, asset_a sg, 0)"
      by (auto simp add: StdDevPairSignal_call_def row_get_def pa pb)
    then show ?thesis by blast
  next
    case False
    from Tracker_call_total [OF n, of d pb]
    obtain t' where t: "Tracker_call (tracker sg) d pb = Inr t'"
      and w: "win_n t' = win_n (tracker sg)" by blast
    from False t have "StdDevPairSignal_call sg d r =
        Inr (sg\<lparr>tracker := t'\<rparr>, asset_a sg, decide_signal sg t')"
      by (simp add: StdDevPairSignal_call_def row_get_def pa pb)
    moreover from w have "win_n (tracker (sg\<lparr>tracker := t'\<rparr>)) = win_n (tracker sg)" by simp
    moreover have "asset_a (sg\<lparr>tracker := t'\<rparr>) = asset_a sg" by simp
    moreover have "asset_b (sg\<lparr>tracker := t'\<rparr>) = asset_b sg" by simp
    ultimately show ?thesis by blast
  qed
qed

lemma strategy_call_total:
  assumes n: "1 \<le> win_n (tracker (stdsignal st))"
    and a: "r (asset_a (stdsignal st)) \<noteq> None" and b: "r (asset_b (stdsignal st)) \<noteq> None"
  shows "\<exists>st' tr. FuturesStdPairStrategy_call st d r = Inr (st', asset_a (stdsignal st), tr) \<and>
           win_n (tracker (stdsignal st')) = win_n (tracker (stdsignal st)) \<and>
           asset_a (stdsignal st') = asset_a (stdsignal st) \<and>
           asset_b (stdsignal st') = asset_b (stdsignal st)"
proof -
  from signal_call_total [OF n a b, of d]
  obtain sg' s where c: "StdDevPairSignal_call (stdsignal st) d r = Inr (sg', asset_a (stdsignal st), s)"
    and i: "win_n (tracker sg') = win_n (tracker (stdsignal st))"
      "asset_a sg' = asset_a (stdsignal st)" "asset_b sg' = asset_b (stdsignal st)" by blast
  let ?st = "st\<lparr>stdsignal := sg'\<rparr>"
  from c have "\<exists>tr. FuturesStdPairStrategy_call st d r = Inr (?st, asset_a (stdsignal st), tr)"
    by (simp add: FuturesStdPairStrategy_call_def Let_def)
  moreover from i have "win_n (tracker (stdsignal ?st)) = win_n (tracker (stdsignal st)) \<and>
    asset_a (stdsignal ?st) = asset_a (stdsignal st) \<and>
    asset_b (stdsignal ?st) = asset_b (stdsignal st)" by simp
  ultimately show ?thesis by blast
qed

lemma day_total:
  assumes n: "1 \<le> win_n (tracker (stdsignal st))"
    and a: "r (asset_a (stdsignal st)) \<noteq> None" and b: "r (asset_b (stdsignal st)) \<noteq> None"
    and ok: "0 < max_value l \<or> numpy_valued l"
  shows "\<exists>l' st'. day l st d r = Inr (l', st') \<and>
           win_n (tracker (stdsignal st')) = win_n (tracker (stdsignal st)) \<and>
           asset_a (stdsignal st') = asset_a (stdsignal st) \<and>
           asset_b (stdsignal st') = asset_b (stdsignal st) \<and>
           (0 < max_value l' \<or> numpy_valued l')"
proof -
  from strategy_call_total [OF n a b, of d]
  obtain st' tr where c: "FuturesStdPairStrategy_call st d r = Inr (st', asset_a (stdsignal st), tr)"
    and i: "win_n (tracker (stdsignal st')) = win_n (tracker (stdsignal st))"
       "asset_a (stdsignal st') = asset_a (stdsignal st)"
       "asset_b (stdsignal st') = asset_b (stdsignal st)" by blast
  from a obtain pa where pa: "r (asset_a (stdsignal st)) = Some pa" by blast
  from settle_ok [OF ok, of pa tr] obtain l' where s: "settle l pa tr = Inr l'" by blast
  from c pa s have "day l st d r = Inr (l', st')" by (simp add: day_def row_get_def)
  with i settle_keeps_ok [OF s ok] show ?thesis by blast
qed

lemma run_total:
  "1 \<le> win_n (tracker (stdsignal st)) \<Longrightarrow> has_columns (stdsignal st) ds \<Longrightarrow>
   0 < max_value l \<or> numpy_valued l \<Longrightarrow> \<exists>res. run l st ds = Inr res"
proof (induction ds arbitrary: st l)
  case Nil
  then show ?case by simp
next
  case (Cons x xs)
  let ?sg = "stdsignal st"
  from Cons.prems have c: "snd x (asset_a ?sg) \<noteq> None" "snd x (asset_b ?sg) \<noteq> None"
    "has_columns ?sg xs" by (simp_all add: has_columns_Cons)
  from day_total [OF Cons.prems(1) c(1) c(2) Cons.prems(3), of "fst x"]
  obtain l1 st1 where d: "day l st (fst x) (snd x) = Inr (l1, st1)"
    and i: "win_n (tracker (stdsignal st1)) = win_n (tracker ?sg)"
       "asset_a (stdsignal st1) = asset_a ?sg" "asset_b (stdsignal st1) = asset_b ?sg"
       "0 < max_value l1 \<or> numpy_valued l1" by blast
  from i(1) Cons.prems(1) have n1: "1 \<le> win_n (tracker (stdsignal st1))" by simp
  from c(3) i has_columns_cong [of "stdsignal st1" ?sg xs]
  have "has_columns (stdsignal st1) xs" by simp
  from Cons.IH [OF n1 this i(4)] obtain res where "run l1 st1 xs = Inr res" by blast
  with d show ?case by simp
qed

lemma settle_lengths:
  "settle l price tr = Inr l' \<Longrightarrow>
   length (pnl l') = Suc (length (pnl l)) \<and> length (drawdown l') = Suc (length (drawdown l))"
proof (cases price)
  case None
  assume "settle l price tr = Inr l'"
  with None show ?thesis by (auto simp add: settle_def)
next
  case (Some p)
  assume "settle l price tr = Inr l'"
  with Some have "record_day (apply_order (mark_to_market l p) p tr) = Inr l'"
    by (simp add: settle_def)
  then have "length (pnl l') = Suc (length (pnl (apply_order (mark_to_market l p) p tr))) \<and>
    length (drawdown l') = Suc (length (drawdown (apply_order (mark_to_market l p) p tr)))"
    by (auto simp add: record_day_def Let_def split: if_splits)
  then show ?thesis by (simp add: apply_order_keeps mark_to_market_fields)
qed

lemma day_lengths:
  assumes "day l st d r = Inr (l', st')"
  shows "length (pnl l') = Suc (length (pnl l)) \<and>
         length (drawdown l') = Suc (length (drawdown l))"
proof -
  from assms obtain price tr where "settle l price tr = Inr l'"
    by (auto simp add: day_def split: sum.splits)
  then show ?thesis by (rule settle_lengths)
qed

lemma run_lengths:
  "run l st ds = Inr (l', st') \<Longrightarrow>
   length (pnl l') = length (pnl l) + length ds \<and>
   length (drawdown l') = length (drawdown l) + length ds"
proof (induction ds arbitrary: l st)
  case Nil
  then show ?case by simp
next
  case (Cons x xs)
  from Cons.prems obtain l1 st1 where d: "day l st (fst x) (snd x) = Inr (l1, st1)"
    and r: "run l1 st1 xs = Inr (l', st')"
    by (auto split: sum.splits)
  from day_lengths [OF d] Cons.IH [OF r] show ?case by simp
qed

lemma example_table_columns:
  "has_columns (stdsignal (FuturesStdPairStrategy_init example_kwargs)) example_table"
  by (simp add: has_columns_def fresh_strategy example_kwargs_def
      example_table_def example_row_def)

lemma init_lengths:
  assumes "Backtest_init ds sa c kw = Inr (l, st)"
  shows "length (pnl l) = length ds \<and> length (drawdown l) = length ds"
proof -
  from assms obtain st0 where "run (ledger_init c kw) st0 ds = Inr (l, st)"
    by (auto simp add: Backtest_init_def split: sum.splits)
  from run_lengths [OF this] show ?thesis by (simp add: ledger_init_fields)
qed

lemma init_total:
  assumes s: "select_strategy sa kw = Inr st0"
    and n: "1 \<le> win_n (tracker (stdsignal st0))"
    and h: "has_columns (stdsignal st0) ds" and c: "0 < c"
  shows "\<exists>res. Backtest_init ds sa c kw = Inr res"
proof -
  from c have "0 < max_value (ledger_init c kw) \<or> numpy_valued (ledger_init c kw)"
    by (simp add: ledger_init_fields)
  from run_total [OF n h this] s show ?thesis by (simp add: Backtest_init_def)
qed

text \<open>
  C6. Whenever the engine has been constructed over a prefix of the price table, the PnL
  series and the drawdown series each have one entry per row of that prefix. Every day
  that completes appends exactly one entry to each; a day on which the traded asset has
  no price always completes and appends the carried-forward
  \<open>position_value + cash\<close> and the drawdown \<open>0\<close>. The construction does complete when
  the initial cash is positive, the window size is at least one and the rows have both
  asset columns.
\<close>

theorem series_lengths:
  "(\<forall>l st. Backtest_init (take k ds) sa c kw = Inr (l, st) \<longrightarrow>
      length (pnl l) = length (take k ds) \<and> length (drawdown l) = length (take k ds)) \<and>
   (\<forall>l'. settle b price tr = Inr l' \<longrightarrow>
      length (pnl l') = Suc (length (pnl b)) \<and>
      length (drawdown l') = Suc (length (drawdown b))) \<and>
   settle b None tr =
     Inr (b\<lparr>pnl := pnl b @ [position_value b + cash b], drawdown := drawdown b @ [Finite 0]\<rparr>) \<and>
   (0 < c \<and> 1 \<le> kw_n_days kw \<and>
    has_columns (stdsignal (FuturesStdPairStrategy_init kw)) ds \<longrightarrow>
      (\<exists>l st. Backtest_init (take k ds) (Name ''future_pairs_strategy'') c kw = Inr (l, st) \<and>
         length (pnl l) = length (take k ds) \<and> length (drawdown l) = length (take k ds)))"
proof (intro conjI allI impI)
  fix l st assume "Backtest_init (take k ds) sa c kw = Inr (l, st)"
  from init_lengths [OF this]
  show "length (pnl l) = length (take k ds)" "length (drawdown l) = length (take k ds)"
    by simp_all
next
  fix l' assume "settle b price tr = Inr l'"
  from settle_lengths [OF this]
  show "length (pnl l') = Suc (length (pnl b))"
    "length (drawdown l') = Suc (length (drawdown b))" by simp_all
next
  show "settle b None tr =
     Inr (b\<lparr>pnl := pnl b @ [position_value b + cash b], drawdown := drawdown b @ [Finite 0]\<rparr>)"
    by (simp add: settle_def)
next
  let ?st = "FuturesStdPairStrategy_init kw"
  assume h: "0 < c \<and> 1 \<le> kw_n_days kw \<and> has_columns (stdsignal ?st) ds"
  then have n: "1 \<le> win_n (tracker (stdsignal ?st))"
    by (simp add: fresh_strategy Tracker_init_def)
  from h have "has_columns (stdsignal ?st) (take k ds)"
    by (simp add: has_columns_def list_all_iff) (meson in_set_takeD)
  from init_total [OF select_named n this, of c] h
  obtain res where r: "Backtest_init (take k ds) (Name ''future_pairs_strategy'') c kw = Inr res"
    by blast
  then have "Backtest_init (take k ds) (Name ''future_pairs_strategy'') c kw =
      Inr (fst res, snd res)" by simp
  from this init_lengths [OF this]
  show "\<exists>l st. Backtest_init (take k ds) (Name ''future_pairs_strategy'') c kw = Inr (l, st) \<and>
         length (pnl l) = length (take k ds) \<and> length (drawdown l) = length (take k ds)"
    by blast
qed

theorem series_lengths_witness:
  "(0::real) < 1000 \<and> 1 \<le> kw_n_days example_kwargs \<and>
   has_columns (stdsignal (FuturesStdPairStrategy_init example_kwargs)) example_table \<and>
   (\<exists>l st. Backtest_init (take 3 example_table) (Name ''future_pairs_strategy'') 1000
              example_kwargs = Inr (l, st) \<and>
      length (pnl l) = 3 \<and> length (drawdown l) = 3) \<and>
   (\<exists>l'. settle example_ledger None Close = Inr l' \<and>
      length (pnl l') = 1 \<and> length (drawdown l') = 1)"
proof -
  note t = series_lengths [of 3 example_table "Name ''future_pairs_strategy''" 1000
      example_kwargs example_ledger None Close]
  have z: "(0::real) < 1000" by simp
  have n: "1 \<le> kw_n_days example_kwargs" by (simp add: example_kwargs_def)
  have k: "length (take 3 example_table) = 3" by (simp add: example_table_def)
  from t z n example_table_columns
  obtain l st where r: "Backtest_init (take 3 example_table) (Name ''future_pairs_strategy'') 1000
              example_kwargs = Inr (l, st)" by blast
  from t r have "length (pnl l) = length (take 3 example_table) \<and>
      length (drawdown l) = length (take 3 example_table)" by blast
  with k r have a: "\<exists>l st. Backtest_init (take 3 example_table) (Name ''future_pairs_strategy'') 1000
              example_kwargs = Inr (l, st) \<and>
      length (pnl l) = 3 \<and> length (drawdown l) = 3" by auto
  from t obtain l' where s: "settle example_ledger None Close = Inr l'" by blast
  from t s have "length (pnl l') = Suc (length (pnl example_ledger)) \<and>
      length (drawdown l') = Suc (length (drawdown example_ledger))" by blast
  then have "length (pnl l') = 1 \<and> length (drawdown l') = 1"
    by (simp add: example_ledger_def)
  with s have b: "\<exists>l'. settle example_ledger None Close = Inr l' \<and>
      length (pnl l') = 1 \<and> length (drawdown l') = 1" by blast
  show ?thesis by (intro conjI) (rule z, rule n, rule example_table_columns, rule a, rule b)
qed

section \<open>Choosing the strategy\<close>






section \<open>Line 89 on concrete tables\<close>

text \<open>
  Line 89 with a zero \<open>max_value\<close>. With cash \<open>-1\<close>, cost \<open>1\<close>, buy size \<open>2\<close> and
  the prices -4, -4, -4, -3.5 for asset A, the fourth day closes with cash
  \<open>6 + (-6) - 1 = -1\<close> and profit \<open>0\<close>; the ledger holds numpy values by then, so the
  day completes and the drawdown appended is \<open>inf\<close>.
\<close>

lemma overdrawn_run:
  "Backtest_init overdrawn_table (Name ''future_pairs_strategy'') (- 1) overdrawn_kwargs =
   Inr (\<lparr>t_cost = 1, initial_value = - 1, cash = - 1,
          position_value = 0, position_size = 2, last_price = Some (- (7 / 2)),
          max_value = 0, pnl = [- 2, - 3, - 2, - 1],
          drawdown = [Finite (- 1), Finite (- 2), Finite (- 1), PosInf],
          numpy_valued = True\<rparr>,
        \<lparr>stdsignal =
           \<lparr>asset_a = ''A Price'', asset_b = ''B Price'',
            tracker =
              \<lparr>prev_date = Some 3, prev_price = Some 12, day_return = Some 0, win_n = 1,
               price_window = [Some 10], moving_average = Some 10, std = Some 0\<rparr>,
            std_rise = 1 / 2, std_drop = 1 / 2, n_days = 1\<rparr>,
         buy_size = 2, short_size = 10\<rparr>)"
  by (simp add: Backtest_init_def select_named FuturesStdPairStrategy_init_def
      StdDevPairSignal_init_def Tracker_init_def kw_get_def ledger_init_def day_def
      FuturesStdPairStrategy_call_def StdDevPairSignal_call_def row_get_def isnan_def
      Tracker_call_def window_stats_def tracker_day_return_def decide_signal_def
      fl_less_def fl_scale_def fl_neg_def settle_def record_day_def apply_order_def
      mark_to_market_def engine_day_return_def day_return_is_numpy_def np_divide_def Let_def
      overdrawn_table_def example_row_def example_kwargs_def overdrawn_kwargs_def)

text \<open>
  On the first priced day the ledger still holds Python numbers: with cash \<open>0\<close> and cost
  \<open>0\<close> the same line raises.
\<close>

lemma first_day_division:
  "Backtest_init [(0, example_row 10 10)] (Name ''future_pairs_strategy'') 0
     (example_kwargs\<lparr>kw_C := Some 0\<rparr>) = Inl ZeroDivisionError"
  by (simp add: Backtest_init_def select_named FuturesStdPairStrategy_init_def
      StdDevPairSignal_init_def Tracker_init_def kw_get_def ledger_init_def day_def
      FuturesStdPairStrategy_call_def StdDevPairSignal_call_def row_get_def isnan_def
      Tracker_call_def decide_signal_def
      fl_less_def fl_scale_def fl_neg_def settle_def record_day_def apply_order_def
      mark_to_market_def engine_day_return_def day_return_is_numpy_def Let_def
      example_row_def example_kwargs_def)


section \<open>A run of four days\<close>

text \<open>
  The table has the prices 10, 10, 10, 11 for asset A and 10, 11, 12, 12 for asset B; the
  window size is 1, both thresholds are 0.5, the sizes and the cost are the defaults and
  the initial cash is 1000. The strategy answers close, close, buy 10, close.
\<close>

lemma example_run:
  "Backtest_init example_table (Name ''future_pairs_strategy'') 1000 example_kwargs =
   Inr (\<lparr>t_cost = 1 / 10, initial_value = 1000, cash = 5499 / 5,
          position_value = 0, position_size = 10, last_price = Some 11,
          max_value = 1000, pnl = [9999 / 10, 4999 / 5, 9999 / 10, 5499 / 5],
          drawdown = [Finite (1 / 10000), Finite (1 / 5000), Finite (1 / 10000),
                      Finite (- (499 / 5000))],
          numpy_valued = True\<rparr>,
        \<lparr>stdsignal =
           \<lparr>asset_a = ''A Price'', asset_b = ''B Price'',
            tracker =
              \<lparr>prev_date = Some 3, prev_price = Some 12, day_return = Some 0, win_n = 1,
               price_window = [Some 10], moving_average = Some 10, std = Some 0\<rparr>,
            std_rise = 1 / 2, std_drop = 1 / 2, n_days = 1\<rparr>,
         buy_size = 10, short_size = 10\<rparr>)"
  by (simp add: Backtest_init_def select_named FuturesStdPairStrategy_init_def
      StdDevPairSignal_init_def Tracker_init_def kw_get_def ledger_init_def day_def
      FuturesStdPairStrategy_call_def StdDevPairSignal_call_def row_get_def isnan_def
      Tracker_call_def window_stats_def tracker_day_return_def decide_signal_def
      fl_less_def fl_scale_def fl_neg_def settle_def record_day_def apply_order_def
      mark_to_market_def engine_day_return_def day_return_is_numpy_def np_divide_def Let_def
      example_table_def example_row_def example_kwargs_def)

text \<open>
  C1. The spec has a close set both \<open>position_value\<close> and \<open>position_size\<close> to
  zero, so that after every day one is zero exactly when the other is. Lines 72-74 reset
  the value only: the run above buys 10 on the third day and closes on the fourth, and
  ends with \<open>position_value = 0\<close> and \<open>position_size = 10\<close>.
\<close>

theorem close_leaves_position_size:
  "\<exists>l st. Backtest_init example_table (Name ''future_pairs_strategy'') 1000 example_kwargs =
      Inr (l, st) \<and> position_value l = 0 \<and> position_size l = 10"
  by (simp add: example_run)

text \<open>
  C5. The spec has the drawdown appended on a day with \<open>max_value > 0\<close> lie in
  \<open>[0, 1]\<close>. Line 87 compares \<open>max_value\<close>, which starts as the initial total value,
  with the profit, so it is not the peak of the total value: the run above ends its
  fourth day with total value 1099.8, \<open>max_value = 1000\<close> and the drawdown -0.0998.
\<close>

theorem drawdown_below_zero:
  "\<exists>l st. Backtest_init example_table (Name ''future_pairs_strategy'') 1000 example_kwargs =
      Inr (l, st) \<and> 0 < max_value l \<and> last (drawdown l) = Finite (- (499 / 5000)) \<and>
      last (pnl l) = 5499 / 5"
  by (simp add: example_run)

text \<open>
  C2. The spec has a full window drop its oldest price when a new one arrives.
  Line 47 calls \<open>pop()\<close>, which removes the price just appended: a tracker with
  \<open>N = 2\<close> fed 1, 2, 3 holds the window 1, 2 with mean 1.5 and variance 0.25, not the
  window 2, 3.
\<close>

theorem window_keeps_oldest:
  "Tracker_feed (Tracker_init 2) [(0, Some 1), (1, Some 2), (2, Some 3)] =
     Inr \<lparr>prev_date = Some 2, prev_price = Some 3, day_return = Some 0, win_n = 2,
          price_window = [Some 1, Some 2], moving_average = Some (3 / 2),
          std = Some (1 / 4)\<rparr>"
  by (simp add: Tracker_init_def Tracker_call_def window_stats_def tracker_day_return_def
      isnan_def Let_def power2_eq_square)

end
